theory Spec2Isabelle
  imports Main
begin

section \<open>The Redis store behind the lock manager\<close>

text \<open>
  \<^verbatim>\<open>services/file_lock.py\<close> keeps no state of its own: every method of
  \<^verbatim>\<open>FileLockManager\<close> is one call on a \<^verbatim>\<open>redis.Redis\<close> client. The store is
  therefore made explicit and passed through each call. A store is a clock, a table from
  keys to entries, and a flag telling whether the client can reach the server. An entry
  is the stored byte string with its expiry instant (\<open>None\<close>: the key never expires).
  The clock and the expiry instants count milliseconds, as the server's do. An entry is
  dead once the clock has passed its expiry instant: the server answers every command as
  if the key were absent.
\<close>

datatype redis_error = ConnectionError | ResponseError

record entry =
  ent_value :: string
  ent_expires_at :: "int option"

record redis =
  reachable :: bool
  clock :: int
  db :: "string \<rightharpoonup> entry"

definition expired :: "redis \<Rightarrow> entry \<Rightarrow> bool" where
  "expired r e = (case ent_expires_at e of None \<Rightarrow> False | Some t \<Rightarrow> t < clock r)"

definition live :: "redis \<Rightarrow> string \<Rightarrow> entry option" where
  "live r k = (case db r k of None \<Rightarrow> None
                | Some e \<Rightarrow> if expired r e then None else Some e)"

subsection \<open>Commands as the server executes them\<close>

text \<open>
  \<open>GET\<close> answers the value of a live key and nil otherwise. \<open>DEL\<close> removes a live
  key and answers the number of keys removed.

  The server keeps an expiry instant as a signed 64-bit number of milliseconds, and
  answers \<open>invalid expire time\<close> when the instant asked for does not fit.
  \<open>EXPIRE key seconds\<close> first checks its argument: \<open>seconds\<close> must lie between
  \<open>LLONG_MIN / 1000\<close> and \<open>LLONG_MAX / 1000\<close> (C division, which truncates), and
  \<open>seconds * 1000\<close> must not exceed \<open>LLONG_MAX - now\<close>. Then it answers 0 on a key
  that is not live; on a live key it answers 1, and removes the key when the new instant
  \<open>now + seconds * 1000\<close> is not after \<open>now\<close>, that is when \<open>seconds\<close> is not
  positive, and sets the key's expiry to that instant otherwise.

  \<open>SET key value NX EX seconds\<close> is refused with the same error when \<open>seconds\<close> is
  not positive, exceeds \<open>LLONG_MAX / 1000\<close>, or \<open>now + seconds * 1000\<close> exceeds
  \<open>LLONG_MAX\<close>. Otherwise it writes the entry with that expiry and answers OK when the
  key is not live, and answers nil, writing nothing, when it is.
\<close>

definition LLONG_MAX :: int where
  "LLONG_MAX = 9223372036854775807"

definition max_seconds :: int where
  "max_seconds = LLONG_MAX div 1000"

definition cmd_get :: "redis \<Rightarrow> string \<Rightarrow> string option" where
  "cmd_get r k = map_option ent_value (live r k)"

definition cmd_del :: "redis \<Rightarrow> string \<Rightarrow> int \<times> redis" where
  "cmd_del r k = (case live r k of None \<Rightarrow> (0, r)
                   | Some e \<Rightarrow> (1, r\<lparr>db := (db r)(k := None)\<rparr>))"

definition cmd_expire :: "redis \<Rightarrow> string \<Rightarrow> int \<Rightarrow> redis_error + (int \<times> redis)" where
  "cmd_expire r k seconds =
     (if seconds > max_seconds \<or> seconds < - max_seconds then Inl ResponseError
      else if seconds * 1000 > LLONG_MAX - clock r then Inl ResponseError
      else case live r k of
             None \<Rightarrow> Inr (0, r)
           | Some e \<Rightarrow>
               if clock r + seconds * 1000 \<le> clock r
               then Inr (1, r\<lparr>db := (db r)(k := None)\<rparr>)
               else Inr (1, r\<lparr>db := (db r)(k \<mapsto>
                      e\<lparr>ent_expires_at := Some (clock r + seconds * 1000)\<rparr>)\<rparr>))"

definition cmd_set_nx_ex :: "redis \<Rightarrow> string \<Rightarrow> string \<Rightarrow> int \<Rightarrow> redis_error + (bool option \<times> redis)" where
  "cmd_set_nx_ex r k v seconds =
     (if seconds \<le> 0 \<or> seconds > max_seconds then Inl ResponseError
      else if clock r + seconds * 1000 > LLONG_MAX then Inl ResponseError
      else case live r k of
             None \<Rightarrow> Inr (Some True,
                     r\<lparr>db := (db r)(k \<mapsto>
                       \<lparr>ent_value = v, ent_expires_at = Some (clock r + seconds * 1000)\<rparr>)\<rparr>)
           | Some e \<Rightarrow> Inr (None, r))"

subsection \<open>The two Lua scripts\<close>

text \<open>
  The server runs a script as one command: nothing else is executed between its
  \<open>redis.call\<close>s. In Lua the reply of \<open>GET\<close> on a missing key is \<open>false\<close>, which is
  equal to no string, the empty one included. An error reply to a \<open>redis.call\<close> ends
  the script with that error.
  \<^verbatim>\<open>
  if redis.call("get", KEYS[1]) == ARGV[1] then
      return redis.call("del", KEYS[1])
  else
      return 0
  end
  \<close>
\<close>

definition release_script :: "string \<Rightarrow> string \<Rightarrow> redis \<Rightarrow> redis_error + (int \<times> redis)" where
  "release_script KEYS1 ARGV1 r =
     (if cmd_get r KEYS1 = Some ARGV1 then Inr (cmd_del r KEYS1) else Inr (0, r))"

text \<open>
  \<^verbatim>\<open>
  if redis.call("get", KEYS[1]) == ARGV[1] then
      return redis.call("expire", KEYS[1], ARGV[2])
  else
      return 0
  end
  \<close>
\<close>

definition extend_script :: "string \<Rightarrow> string \<Rightarrow> int \<Rightarrow> redis \<Rightarrow> redis_error + (int \<times> redis)" where
  "extend_script KEYS1 ARGV1 ARGV2 r =
     (if cmd_get r KEYS1 = Some ARGV1 then cmd_expire r KEYS1 ARGV2 else Inr (0, r))"

subsection \<open>The client\<close>

text \<open>
  A method of the client sends one command and returns its reply, or raises: a
  \<open>ConnectionError\<close> when the server cannot be reached, and the server's own error
  reply as a \<open>ResponseError\<close>. \<^verbatim>\<open>set(key, value, nx=True, ex=seconds)\<close> returns
  \<^verbatim>\<open>True\<close> for OK and \<^verbatim>\<open>None\<close> for nil; \<^verbatim>\<open>get\<close> returns the bytes or \<^verbatim>\<open>None\<close>;
  \<^verbatim>\<open>eval\<close> returns the integer the script returned.
\<close>

definition redis_set :: "redis \<Rightarrow> string \<Rightarrow> string \<Rightarrow> int \<Rightarrow> redis_error + (bool option \<times> redis)" where
  "redis_set r k v ex = (if \<not> reachable r then Inl ConnectionError else cmd_set_nx_ex r k v ex)"

definition redis_get :: "redis \<Rightarrow> string \<Rightarrow> redis_error + (string option \<times> redis)" where
  "redis_get r k = (if \<not> reachable r then Inl ConnectionError else Inr (cmd_get r k, r))"

definition redis_eval :: "(redis \<Rightarrow> redis_error + (int \<times> redis)) \<Rightarrow> redis \<Rightarrow> redis_error + (int \<times> redis)" where
  "redis_eval script r = (if \<not> reachable r then Inl ConnectionError else script r)"

section \<open>FileLockManager\<close>

text \<open>
  The object holds the client and \<^verbatim>\<open>lock_ttl\<close>, which \<^verbatim>\<open>__init__\<close> sets to 60. The
  client is the store argument of each method below.
\<close>

record FileLockManager =
  lock_ttl :: int

definition FileLockManager_init :: FileLockManager where
  "FileLockManager_init = \<lparr>lock_ttl = 60\<rparr>"

definition lock_key :: "string \<Rightarrow> string" where
  "lock_key file_path = ''file_lock:'' @ file_path"

text \<open>Python's \<^verbatim>\<open>bool(x)\<close> on the reply of \<^verbatim>\<open>set\<close>.\<close>

fun py_bool :: "bool option \<Rightarrow> bool" where
  "py_bool None = False"
| "py_bool (Some b) = b"

definition acquire_lock :: "FileLockManager \<Rightarrow> string \<Rightarrow> string \<Rightarrow> redis \<Rightarrow> redis_error + (bool \<times> redis)" where
  "acquire_lock self file_path user_id r =
     (case redis_set r (lock_key file_path) user_id (lock_ttl self) of
        Inl e \<Rightarrow> Inl e
      | Inr (reply, r') \<Rightarrow> Inr (py_bool reply, r'))"

definition release_lock :: "FileLockManager \<Rightarrow> string \<Rightarrow> string \<Rightarrow> redis \<Rightarrow> redis_error + (bool \<times> redis)" where
  "release_lock self file_path user_id r =
     (case redis_eval (release_script (lock_key file_path) user_id) r of
        Inl e \<Rightarrow> Inl e
      | Inr (result, r') \<Rightarrow> Inr (result = 1, r'))"

text \<open>The source's \<^verbatim>\<open>ttl\<close> has the default 60; here it is always passed.\<close>

definition extend_lock :: "FileLockManager \<Rightarrow> string \<Rightarrow> string \<Rightarrow> int \<Rightarrow> redis \<Rightarrow> redis_error + (bool \<times> redis)" where
  "extend_lock self file_path user_id ttl r =
     (case redis_eval (extend_script (lock_key file_path) user_id ttl) r of
        Inl e \<Rightarrow> Inl e
      | Inr (result, r') \<Rightarrow> Inr (result = 1, r'))"

text \<open>
  \<^verbatim>\<open>owner.decode() if owner else None\<close>: the test is Python's truth value of the
  reply, so both \<^verbatim>\<open>None\<close> and the empty byte string take the \<^verbatim>\<open>else\<close> branch.
  The client encodes a \<^verbatim>\<open>str\<close> argument when it sends it and \<^verbatim>\<open>decode\<close> undoes
  that, so a value is the same string on both sides.
\<close>

definition get_lock_owner :: "FileLockManager \<Rightarrow> string \<Rightarrow> redis \<Rightarrow> redis_error + (string option \<times> redis)" where
  "get_lock_owner self file_path r =
     (case redis_get r (lock_key file_path) of
        Inl e \<Rightarrow> Inl e
      | Inr (owner, r') \<Rightarrow>
          Inr ((case owner of None \<Rightarrow> None
                | Some b \<Rightarrow> if b = [] then None else Some b), r'))"

section \<open>Histories of calls\<close>






section \<open>Stores used in the examples\<close>

abbreviation no_locks :: redis where
  "no_locks \<equiv> \<lparr>reachable = True, clock = 0, db = Map.empty\<rparr>"

abbreviation held_by_A :: redis where
  "held_by_A \<equiv> \<lparr>reachable = True, clock = 5000,
     db = [''file_lock:doc/1.md'' \<mapsto> \<lparr>ent_value = ''A'', ent_expires_at = Some 65000\<rparr>]\<rparr>"

abbreviation released :: redis where
  "released \<equiv> \<lparr>reachable = True, clock = 5000, db = Map.empty\<rparr>"

abbreviation lapsed :: redis where
  "lapsed \<equiv> \<lparr>reachable = True, clock = 70000,
     db = [''file_lock:doc/1.md'' \<mapsto> \<lparr>ent_value = ''A'', ent_expires_at = Some 65000\<rparr>]\<rparr>"

abbreviation held_by_empty :: redis where
  "held_by_empty \<equiv> \<lparr>reachable = True, clock = 0,
     db = [''file_lock:doc/1.md'' \<mapsto> \<lparr>ent_value = [], ent_expires_at = Some 60000\<rparr>]\<rparr>"

abbreviation server_down :: redis where
  "server_down \<equiv> \<lparr>reachable = False, clock = 5000,
     db = [''file_lock:doc/1.md'' \<mapsto> \<lparr>ent_value = ''A'', ent_expires_at = Some 65000\<rparr>]\<rparr>"

section \<open>What each method does on a reachable store\<close>

lemmas eval_defs =
  FileLockManager_init_def lock_key_def cmd_get_def live_def expired_def
  max_seconds_def LLONG_MAX_def

lemma acquire_lock_eq:
  "reachable r \<Longrightarrow> 0 < lock_ttl self \<Longrightarrow> lock_ttl self \<le> max_seconds \<Longrightarrow>
   clock r + lock_ttl self * 1000 \<le> LLONG_MAX \<Longrightarrow>
   acquire_lock self fp uid r =
     Inr (live r (lock_key fp) = None,
          if live r (lock_key fp) = None
          then r\<lparr>db := (db r)(lock_key fp \<mapsto>
                 \<lparr>ent_value = uid, ent_expires_at = Some (clock r + lock_ttl self * 1000)\<rparr>)\<rparr>
          else r)"
  by (simp add: acquire_lock_def redis_set_def cmd_set_nx_ex_def split: option.splits)

lemma release_lock_eq:
  "reachable r \<Longrightarrow>
   release_lock self fp uid r =
     Inr (cmd_get r (lock_key fp) = Some uid,
          if cmd_get r (lock_key fp) = Some uid
          then r\<lparr>db := (db r)(lock_key fp := None)\<rparr>
          else r)"
  by (auto simp add: release_lock_def redis_eval_def release_script_def cmd_del_def cmd_get_def
      split: option.splits)

lemma extend_lock_eq:
  "reachable r \<Longrightarrow>
   extend_lock self fp uid ttl r =
     (case live r (lock_key fp) of
        None \<Rightarrow> Inr (False, r)
      | Some e \<Rightarrow>
          if ent_value e \<noteq> uid then Inr (False, r)
          else if ttl > max_seconds \<or> ttl < - max_seconds
                  \<or> ttl * 1000 > LLONG_MAX - clock r then Inl ResponseError
          else if ttl \<le> 0 then Inr (True, r\<lparr>db := (db r)(lock_key fp := None)\<rparr>)
          else Inr (True, r\<lparr>db := (db r)(lock_key fp \<mapsto>
                 e\<lparr>ent_expires_at := Some (clock r + ttl * 1000)\<rparr>)\<rparr>))"
  by (auto simp add: extend_lock_def redis_eval_def extend_script_def cmd_expire_def cmd_get_def
      split: option.splits)

lemma get_lock_owner_eq:
  "reachable r \<Longrightarrow>
   get_lock_owner self fp r =
     Inr ((case cmd_get r (lock_key fp) of None \<Rightarrow> None
           | Some b \<Rightarrow> if b = [] then None else Some b), r)"
  by (simp add: get_lock_owner_def redis_get_def)

lemma lock_key_inject: "lock_key a = lock_key b \<longleftrightarrow> a = b"
  by (simp add: lock_key_def)



lemma live_fresh:
  "0 < s \<Longrightarrow> live (r\<lparr>db := (db r)(k \<mapsto> \<lparr>ent_value = v, ent_expires_at = Some (clock r + s * 1000)\<rparr>)\<rparr>) k
     = Some \<lparr>ent_value = v, ent_expires_at = Some (clock r + s * 1000)\<rparr>"
  by (simp add: live_def expired_def)

lemma live_deleted: "live (r\<lparr>db := (db r)(k := None)\<rparr>) k = None"
  by (simp add: live_def)

lemma live_cong_entry:
  "db r' k = db r k \<Longrightarrow> clock r' = clock r \<Longrightarrow> live r' k = live r k"
  by (simp add: live_def expired_def split: option.splits)

subsection \<open>What a call that returns tells about the store\<close>

lemma acquire_returns:
  assumes "acquire_lock self fp uid r = Inr (b, r')"
  shows "reachable r \<and> 0 < lock_ttl self \<and> lock_ttl self \<le> max_seconds
       \<and> clock r + lock_ttl self * 1000 \<le> LLONG_MAX"
proof -
  from assms have re: "reachable r"
    by (auto simp: acquire_lock_def redis_set_def split: if_splits)
  with assms show ?thesis
    by (auto simp: acquire_lock_def redis_set_def cmd_set_nx_ex_def split: if_splits)
qed

lemma acquire_refused:
  "reachable r \<Longrightarrow>
   lock_ttl self \<le> 0 \<or> max_seconds < lock_ttl self \<or> LLONG_MAX < clock r + lock_ttl self * 1000 \<Longrightarrow>
   acquire_lock self fp uid r = Inl ResponseError"
  by (auto simp: acquire_lock_def redis_set_def cmd_set_nx_ex_def)

lemma release_returns: "release_lock self fp uid r = Inr (b, r') \<Longrightarrow> reachable r"
  by (auto simp: release_lock_def redis_eval_def split: if_splits)


lemma get_owner_returns: "get_lock_owner self fp r = Inr (w, r') \<Longrightarrow> reachable r \<and> r' = r"
  by (auto simp: get_lock_owner_def redis_get_def split: if_splits)


subsection \<open>Keys a call does not name\<close>

lemma acquire_frame:
  "acquire_lock self fp uid r = Inr (b, r') \<Longrightarrow> k \<noteq> lock_key fp \<Longrightarrow>
   db r' k = db r k \<and> clock r' = clock r \<and> reachable r' = reachable r"
  by (auto simp: acquire_lock_def redis_set_def cmd_set_nx_ex_def split: if_splits option.splits)

lemma release_frame:
  "release_lock self fp uid r = Inr (b, r') \<Longrightarrow> k \<noteq> lock_key fp \<Longrightarrow>
   db r' k = db r k \<and> clock r' = clock r \<and> reachable r' = reachable r"
  by (auto simp: release_lock_def redis_eval_def release_script_def cmd_del_def
      split: if_splits option.splits)

lemma extend_frame:
  "extend_lock self fp uid ttl r = Inr (b, r') \<Longrightarrow> k \<noteq> lock_key fp \<Longrightarrow>
   db r' k = db r k \<and> clock r' = clock r \<and> reachable r' = reachable r"
  by (auto simp: extend_lock_def redis_eval_def extend_script_def cmd_expire_def
      split: if_splits option.splits)

subsection \<open>Histories\<close>





section \<open>The claims\<close>




text \<open>
  C2. On a reachable store, acquire is one create-if-absent write: it returns true
  exactly when the resource has no live entry, and then stores \<open>user_id\<close> under the
  resource's key with the expiry \<open>lock_ttl\<close> seconds after the clock; otherwise it
  returns false and the store is as before. The ttl is the manager's \<open>lock_ttl\<close> (60
  from \<open>__init__\<close>), which must be one the store accepts; the method has no ttl
  argument. In particular a holder that acquires again gets false.
\<close>

theorem acquire_create_if_absent:
  assumes "reachable r" and "0 < lock_ttl self" and "lock_ttl self \<le> max_seconds"
    and "clock r + lock_ttl self * 1000 \<le> LLONG_MAX"
  shows "acquire_lock self fp uid r =
           Inr (live r (lock_key fp) = None,
                if live r (lock_key fp) = None
                then r\<lparr>db := (db r)(lock_key fp \<mapsto>
                       \<lparr>ent_value = uid, ent_expires_at = Some (clock r + lock_ttl self * 1000)\<rparr>)\<rparr>
                else r)
         \<and> (cmd_get r (lock_key fp) = Some uid \<longrightarrow> acquire_lock self fp uid r = Inr (False, r))"
  using assms by (auto simp: acquire_lock_eq cmd_get_def)

theorem acquire_create_if_absent_witness:
  "reachable held_by_A
   \<and> 0 < lock_ttl FileLockManager_init \<and> lock_ttl FileLockManager_init \<le> max_seconds
   \<and> clock held_by_A + lock_ttl FileLockManager_init * 1000 \<le> LLONG_MAX
   \<and> cmd_get held_by_A (lock_key ''doc/1.md'') = Some ''A''
   \<and> acquire_lock FileLockManager_init ''doc/1.md'' ''A'' held_by_A = Inr (False, held_by_A)
   \<and> acquire_lock FileLockManager_init ''doc/2.md'' ''A'' held_by_A
      = Inr (True, \<lparr>reachable = True, clock = 5000,
         db = [''file_lock:doc/1.md'' \<mapsto> \<lparr>ent_value = ''A'', ent_expires_at = Some 65000\<rparr>,
               ''file_lock:doc/2.md'' \<mapsto> \<lparr>ent_value = ''A'', ent_expires_at = Some 65000\<rparr>]\<rparr>)
   \<and> reachable lapsed
   \<and> clock lapsed + lock_ttl FileLockManager_init * 1000 \<le> LLONG_MAX
   \<and> acquire_lock FileLockManager_init ''doc/1.md'' ''B'' lapsed
      = Inr (True, \<lparr>reachable = True, clock = 70000,
         db = [''file_lock:doc/1.md'' \<mapsto> \<lparr>ent_value = ''B'', ent_expires_at = Some 130000\<rparr>]\<rparr>)"
proof -
  have h1: "reachable held_by_A" by simp
  have h1': "reachable lapsed" by simp
  have h2: "0 < lock_ttl FileLockManager_init" by (simp add: FileLockManager_init_def)
  have h3: "lock_ttl FileLockManager_init \<le> max_seconds" by (simp add: eval_defs)
  have h4: "clock held_by_A + lock_ttl FileLockManager_init * 1000 \<le> LLONG_MAX"
    by (simp add: eval_defs)
  have h4': "clock lapsed + lock_ttl FileLockManager_init * 1000 \<le> LLONG_MAX"
    by (simp add: eval_defs)
  from acquire_create_if_absent [OF h1 h2 h3 h4, of "''doc/1.md''" "''A''"]
       acquire_create_if_absent [OF h1 h2 h3 h4, of "''doc/2.md''" "''A''"]
       acquire_create_if_absent [OF h1' h2 h3 h4', of "''doc/1.md''" "''B''"]
  show ?thesis
    by (simp add: eval_defs)
qed

text \<open>
  C3. On a reachable store, release is one script run by the store: it returns true and
  deletes the entry exactly when the value of the resource's live entry is \<open>user_id\<close>;
  when the entry is absent, dead or has another value it returns false, raises nothing
  and leaves the store as it was.
\<close>

theorem release_compare_and_delete:
  assumes "reachable r"
  shows "release_lock self fp uid r =
           Inr (cmd_get r (lock_key fp) = Some uid,
                if cmd_get r (lock_key fp) = Some uid
                then r\<lparr>db := (db r)(lock_key fp := None)\<rparr>
                else r)
         \<and> (cmd_get r (lock_key fp) \<noteq> Some uid \<longrightarrow> release_lock self fp uid r = Inr (False, r))"
  using assms by (simp add: release_lock_eq)

theorem release_compare_and_delete_witness:
  "reachable held_by_A
   \<and> release_lock FileLockManager_init ''doc/1.md'' ''A'' held_by_A = Inr (True, released)
   \<and> cmd_get held_by_A (lock_key ''doc/1.md'') \<noteq> Some ''B''
   \<and> release_lock FileLockManager_init ''doc/1.md'' ''B'' held_by_A = Inr (False, held_by_A)
   \<and> release_lock FileLockManager_init ''doc/2.md'' ''A'' held_by_A = Inr (False, held_by_A)
   \<and> reachable lapsed
   \<and> release_lock FileLockManager_init ''doc/1.md'' ''A'' lapsed = Inr (False, lapsed)"
proof -
  have h: "reachable held_by_A" by simp
  have h': "reachable lapsed" by simp
  from release_compare_and_delete [OF h, of FileLockManager_init "''doc/1.md''" "''A''"]
       release_compare_and_delete [OF h, of FileLockManager_init "''doc/1.md''" "''B''"]
       release_compare_and_delete [OF h, of FileLockManager_init "''doc/2.md''" "''A''"]
       release_compare_and_delete [OF h', of FileLockManager_init "''doc/1.md''" "''A''"]
  show ?thesis by (simp add: eval_defs)
qed

text \<open>
  C4. On a reachable store, renew by anyone but the owner of a live entry (the entry is
  absent, dead, or has another value) returns false and leaves the store, so the
  entry's owner and expiry, as it was, whatever the ttl. When the value of the live entry
  is \<open>user_id\<close> and the ttl is positive and one the store accepts (at most
  \<open>max_seconds\<close>, and the new expiry instant fits), renew returns true and sets the
  expiry of that entry to ttl seconds after the clock, keeping its value.
\<close>

theorem extend_only_by_owner:
  assumes "reachable r"
  shows "(cmd_get r (lock_key fp) \<noteq> Some uid \<longrightarrow> extend_lock self fp uid ttl r = Inr (False, r))
       \<and> (\<forall>e. live r (lock_key fp) = Some e \<and> ent_value e = uid
               \<and> 0 < ttl \<and> ttl \<le> max_seconds \<and> ttl * 1000 \<le> LLONG_MAX - clock r \<longrightarrow>
            extend_lock self fp uid ttl r =
              Inr (True, r\<lparr>db := (db r)(lock_key fp \<mapsto>
                     e\<lparr>ent_expires_at := Some (clock r + ttl * 1000)\<rparr>)\<rparr>))"
  using assms by (auto simp: extend_lock_eq cmd_get_def split: option.splits)

theorem extend_only_by_owner_witness:
  "reachable held_by_A
   \<and> cmd_get held_by_A (lock_key ''doc/1.md'') \<noteq> Some ''B''
   \<and> extend_lock FileLockManager_init ''doc/1.md'' ''B'' 300 held_by_A = Inr (False, held_by_A)
   \<and> cmd_get held_by_A (lock_key ''doc/2.md'') \<noteq> Some ''A''
   \<and> extend_lock FileLockManager_init ''doc/2.md'' ''A'' 300 held_by_A = Inr (False, held_by_A)
   \<and> live held_by_A (lock_key ''doc/1.md'') = Some \<lparr>ent_value = ''A'', ent_expires_at = Some 65000\<rparr>
   \<and> (300 :: int) \<le> max_seconds
   \<and> 300 * 1000 \<le> LLONG_MAX - clock held_by_A
   \<and> extend_lock FileLockManager_init ''doc/1.md'' ''A'' 300 held_by_A
       = Inr (True, \<lparr>reachable = True, clock = 5000,
           db = [''file_lock:doc/1.md'' \<mapsto> \<lparr>ent_value = ''A'', ent_expires_at = Some 305000\<rparr>]\<rparr>)
   \<and> reachable lapsed
   \<and> cmd_get lapsed (lock_key ''doc/1.md'') \<noteq> Some ''A''
   \<and> extend_lock FileLockManager_init ''doc/1.md'' ''A'' 300 lapsed = Inr (False, lapsed)"
proof -
  have h: "reachable held_by_A" by simp
  have h': "reachable lapsed" by simp
  from extend_only_by_owner [OF h, of "''doc/1.md''" "''B''" FileLockManager_init 300]
       extend_only_by_owner [OF h, of "''doc/2.md''" "''A''" FileLockManager_init 300]
       extend_only_by_owner [OF h, of "''doc/1.md''" "''A''" FileLockManager_init 300]
       extend_only_by_owner [OF h', of "''doc/1.md''" "''A''" FileLockManager_init 300]
  show ?thesis by (simp add: eval_defs)
qed

text \<open>
  C5. No method catches what the client raises: whenever the client's call fails with
  an error, the method fails with that same error and returns no answer. In particular,
  when the store cannot be reached, each of acquire, release, renew and get_owner fails
  with \<open>ConnectionError\<close>.
\<close>

theorem store_failure_surfaces:
  "(redis_set r (lock_key fp) uid (lock_ttl self) = Inl e \<longrightarrow> acquire_lock self fp uid r = Inl e)
 \<and> (redis_eval (release_script (lock_key fp) uid) r = Inl e \<longrightarrow> release_lock self fp uid r = Inl e)
 \<and> (redis_eval (extend_script (lock_key fp) uid ttl) r = Inl e \<longrightarrow> extend_lock self fp uid ttl r = Inl e)
 \<and> (redis_get r (lock_key fp) = Inl e \<longrightarrow> get_lock_owner self fp r = Inl e)
 \<and> (\<not> reachable r \<longrightarrow>
       acquire_lock self fp uid r = Inl ConnectionError
     \<and> release_lock self fp uid r = Inl ConnectionError
     \<and> extend_lock self fp uid ttl r = Inl ConnectionError
     \<and> get_lock_owner self fp r = Inl ConnectionError)"
  by (simp add: acquire_lock_def release_lock_def extend_lock_def get_lock_owner_def
      redis_set_def redis_eval_def redis_get_def)

theorem store_failure_surfaces_witness:
  "\<not> reachable server_down
 \<and> redis_set server_down (lock_key ''doc/1.md'') ''A'' (lock_ttl FileLockManager_init) = Inl ConnectionError
 \<and> redis_eval (release_script (lock_key ''doc/1.md'') ''A'') server_down = Inl ConnectionError
 \<and> redis_eval (extend_script (lock_key ''doc/1.md'') ''A'' 60) server_down = Inl ConnectionError
 \<and> redis_get server_down (lock_key ''doc/1.md'') = Inl ConnectionError
 \<and> acquire_lock FileLockManager_init ''doc/1.md'' ''A'' server_down = Inl ConnectionError
 \<and> release_lock FileLockManager_init ''doc/1.md'' ''A'' server_down = Inl ConnectionError
 \<and> extend_lock FileLockManager_init ''doc/1.md'' ''A'' 60 server_down = Inl ConnectionError
 \<and> get_lock_owner FileLockManager_init ''doc/1.md'' server_down = Inl ConnectionError"
  using store_failure_surfaces [of server_down "''doc/1.md''" "''A''" FileLockManager_init ConnectionError 60]
  by (simp add: redis_set_def redis_eval_def redis_get_def)

text \<open>
  C6, as the spec states it, does not hold: no method checks its arguments. Acquire with
  an empty path and an empty user is granted and writes an entry; release with an empty
  user deletes an entry whose value is empty; renew with the ttl 0 is answered false to a
  caller that is not the owner, an ordinary answer, and true to the owner, whose entry
  the store removes.
\<close>

theorem invalid_input_counterexample:
  "acquire_lock FileLockManager_init [] [] no_locks
     = Inr (True, \<lparr>reachable = True, clock = 0,
         db = [''file_lock:'' \<mapsto> \<lparr>ent_value = [], ent_expires_at = Some 60000\<rparr>]\<rparr>)
   \<and> release_lock FileLockManager_init ''doc/1.md'' [] held_by_empty = Inr (True, no_locks)
   \<and> extend_lock FileLockManager_init ''doc/1.md'' ''B'' 0 held_by_A = Inr (False, held_by_A)
   \<and> extend_lock FileLockManager_init ''doc/1.md'' ''A'' 0 held_by_A = Inr (True, released)"
  by (simp add: acquire_lock_def release_lock_def extend_lock_def redis_set_def redis_eval_def
      cmd_set_nx_ex_def release_script_def extend_script_def cmd_del_def cmd_expire_def eval_defs)

text \<open>
  C6, amended. The methods validate nothing themselves: a call with an empty
  resource_id, an empty owner_id or a ttl that is not positive is sent to the store like
  any other, and on a reachable store it is answered as any other call is. Acquire
  returns true and writes the entry exactly when the resource has no live entry; release
  returns true and deletes the entry exactly when the live value is the owner_id given.
  Renew returns false and changes nothing when the live value is not the owner_id
  given. When it is, the ttl reaches the store: a ttl outside the range the store can
  represent is refused by the store with an error; a ttl in that range that is not
  positive is answered true and the store removes the entry; a positive one is answered
  true and the entry's expiry is set to ttl seconds after the clock.
\<close>

theorem no_input_validation:
  assumes "reachable r" and "0 < lock_ttl self" and "lock_ttl self \<le> max_seconds"
    and "clock r + lock_ttl self * 1000 \<le> LLONG_MAX"
    and "fp = [] \<or> uid = [] \<or> ttl \<le> 0"
  shows "acquire_lock self fp uid r =
           Inr (live r (lock_key fp) = None,
                if live r (lock_key fp) = None
                then r\<lparr>db := (db r)(lock_key fp \<mapsto>
                       \<lparr>ent_value = uid, ent_expires_at = Some (clock r + lock_ttl self * 1000)\<rparr>)\<rparr>
                else r)
       \<and> release_lock self fp uid r =
           Inr (cmd_get r (lock_key fp) = Some uid,
                if cmd_get r (lock_key fp) = Some uid
                then r\<lparr>db := (db r)(lock_key fp := None)\<rparr>
                else r)
       \<and> extend_lock self fp uid ttl r =
           (case live r (lock_key fp) of
              None \<Rightarrow> Inr (False, r)
            | Some e \<Rightarrow>
                if ent_value e \<noteq> uid then Inr (False, r)
                else if ttl > max_seconds \<or> ttl < - max_seconds
                        \<or> ttl * 1000 > LLONG_MAX - clock r then Inl ResponseError
                else if ttl \<le> 0 then Inr (True, r\<lparr>db := (db r)(lock_key fp := None)\<rparr>)
                else Inr (True, r\<lparr>db := (db r)(lock_key fp \<mapsto>
                       e\<lparr>ent_expires_at := Some (clock r + ttl * 1000)\<rparr>)\<rparr>))"
  using assms
  by (simp add: acquire_lock_eq release_lock_eq extend_lock_eq)

theorem no_input_validation_witness:
  "reachable held_by_empty \<and> 0 < lock_ttl FileLockManager_init
   \<and> lock_ttl FileLockManager_init \<le> max_seconds
   \<and> clock held_by_empty + lock_ttl FileLockManager_init * 1000 \<le> LLONG_MAX
   \<and> acquire_lock FileLockManager_init [] [] held_by_empty
     = Inr (True, \<lparr>reachable = True, clock = 0,
         db = [''file_lock:doc/1.md'' \<mapsto> \<lparr>ent_value = [], ent_expires_at = Some 60000\<rparr>,
               ''file_lock:'' \<mapsto> \<lparr>ent_value = [], ent_expires_at = Some 60000\<rparr>]\<rparr>)
   \<and> release_lock FileLockManager_init ''doc/1.md'' [] held_by_empty = Inr (True, no_locks)
   \<and> extend_lock FileLockManager_init ''doc/1.md'' ''B'' 0 held_by_empty = Inr (False, held_by_empty)
   \<and> extend_lock FileLockManager_init ''doc/1.md'' [] 30 held_by_empty
     = Inr (True, \<lparr>reachable = True, clock = 0,
         db = [''file_lock:doc/1.md'' \<mapsto> \<lparr>ent_value = [], ent_expires_at = Some 30000\<rparr>]\<rparr>)
   \<and> extend_lock FileLockManager_init ''doc/1.md'' [] (- 5) held_by_empty = Inr (True, no_locks)
   \<and> extend_lock FileLockManager_init ''doc/1.md'' [] (- 9223372036854775808) held_by_empty
     = Inl ResponseError"
proof -
  have h1: "reachable held_by_empty" by simp
  have h2: "0 < lock_ttl FileLockManager_init" by (simp add: FileLockManager_init_def)
  have h3: "lock_ttl FileLockManager_init \<le> max_seconds" by (simp add: eval_defs)
  have h4: "clock held_by_empty + lock_ttl FileLockManager_init * 1000 \<le> LLONG_MAX"
    by (simp add: eval_defs)
  have a: "([] :: string) = [] \<or> ([] :: string) = [] \<or> (60 :: int) \<le> 0" by simp
  have b: "''doc/1.md'' = [] \<or> ([] :: string) = [] \<or> (30 :: int) \<le> 0" by simp
  have c: "''doc/1.md'' = [] \<or> ''B'' = [] \<or> (0 :: int) \<le> 0" by simp
  have d: "''doc/1.md'' = [] \<or> ([] :: string) = [] \<or> (- 5 :: int) \<le> 0" by simp
  have e: "''doc/1.md'' = [] \<or> ([] :: string) = [] \<or> (- 9223372036854775808 :: int) \<le> 0"
    by simp
  from no_input_validation [OF h1 h2 h3 h4 a]
       no_input_validation [OF h1 h2 h3 h4 b]
       no_input_validation [OF h1 h2 h3 h4 c]
       no_input_validation [OF h1 h2 h3 h4 d]
       no_input_validation [OF h1 h2 h3 h4 e]
       h1 h2 h3 h4
  show ?thesis by (simp add: eval_defs)
qed

text \<open>
  C7. Whenever release returns, the same release repeated on the store it left returns
  false, raises nothing and changes nothing. When it returned true, get_owner on that
  store returns none, and an acquire by any owner is granted (the manager's
  \<open>lock_ttl\<close> being one the store accepts, as 60 is).
\<close>

theorem release_then_free:
  assumes "release_lock self fp uid r = Inr (b, r')"
    and "0 < lock_ttl self" and "lock_ttl self \<le> max_seconds"
    and "clock r' + lock_ttl self * 1000 \<le> LLONG_MAX"
  shows "release_lock self fp uid r' = Inr (False, r')
       \<and> (b \<longrightarrow> get_lock_owner self fp r' = Inr (None, r')
              \<and> (\<forall>uid'. acquire_lock self fp uid' r' =
                    Inr (True, r'\<lparr>db := (db r')(lock_key fp \<mapsto>
                       \<lparr>ent_value = uid', ent_expires_at = Some (clock r' + lock_ttl self * 1000)\<rparr>)\<rparr>)))"
proof -
  from assms(1) have re: "reachable r" by (rule release_returns)
  show ?thesis
  proof (cases "cmd_get r (lock_key fp) = Some uid")
    case True
    with assms(1) re have r': "r' = r\<lparr>db := (db r)(lock_key fp := None)\<rparr>"
      by (simp add: release_lock_eq)
    have re': "reachable r'" using re r' by simp
    have gone: "live r' (lock_key fp) = None" using r' by (simp add: live_deleted)
    from re' gone assms(2,3,4) show ?thesis
      by (simp add: release_lock_eq get_lock_owner_eq acquire_lock_eq cmd_get_def)
  next
    case False
    with assms(1) re have "\<not> b" and "r' = r"
      by (simp_all add: release_lock_eq)
    with False re show ?thesis by (simp add: release_lock_eq)
  qed
qed

theorem release_then_free_witness:
  "release_lock FileLockManager_init ''doc/1.md'' ''A'' held_by_A = Inr (True, released)
   \<and> 0 < lock_ttl FileLockManager_init \<and> lock_ttl FileLockManager_init \<le> max_seconds
   \<and> clock released + lock_ttl FileLockManager_init * 1000 \<le> LLONG_MAX
   \<and> release_lock FileLockManager_init ''doc/1.md'' ''A'' released = Inr (False, released)
   \<and> get_lock_owner FileLockManager_init ''doc/1.md'' released = Inr (None, released)
   \<and> acquire_lock FileLockManager_init ''doc/1.md'' ''B'' released
       = Inr (True, \<lparr>reachable = True, clock = 5000,
           db = [''file_lock:doc/1.md'' \<mapsto> \<lparr>ent_value = ''B'', ent_expires_at = Some 65000\<rparr>]\<rparr>)"
proof -
  have h1: "release_lock FileLockManager_init ''doc/1.md'' ''A'' held_by_A = Inr (True, released)"
    by (simp add: release_lock_def redis_eval_def release_script_def cmd_del_def eval_defs)
  have h2: "0 < lock_ttl FileLockManager_init" by (simp add: FileLockManager_init_def)
  have h3: "lock_ttl FileLockManager_init \<le> max_seconds" by (simp add: eval_defs)
  have h4: "clock released + lock_ttl FileLockManager_init * 1000 \<le> LLONG_MAX"
    by (simp add: eval_defs)
  from release_then_free [OF h1 h2 h3 h4] h1 h2 h3 h4
  show ?thesis by (simp add: FileLockManager_init_def lock_key_def)
qed

text \<open>
  C8. get_owner is a read, and it returns none when the resource has no live entry; but
  when the live entry's value is the empty string it returns none as well, not that
  owner. The store below is the one that acquire with the empty user leaves: the
  resource has a live entry, whose value \<open>GET\<close> returns, and get_owner answers none.
  On a live entry with any other value, such as \<open>A\<close>, it answers that value.
\<close>

theorem get_lock_owner_empty_value:
  "acquire_lock FileLockManager_init ''doc/1.md'' [] no_locks = Inr (True, held_by_empty)
   \<and> cmd_get held_by_empty (lock_key ''doc/1.md'') = Some []
   \<and> get_lock_owner FileLockManager_init ''doc/1.md'' held_by_empty = Inr (None, held_by_empty)
   \<and> get_lock_owner FileLockManager_init ''doc/1.md'' held_by_A = Inr (Some ''A'', held_by_A)"
  by (simp add: acquire_lock_def get_lock_owner_def redis_set_def redis_get_def
      cmd_set_nx_ex_def eval_defs)

text \<open>
  C9. When acquire with the empty string as owner is granted, the resource has a live
  entry whose value is the empty string, yet get_owner returns none; release with the
  empty owner matches the entry, deletes it and returns true, and renew with the empty
  owner and a ttl the store accepts returns true: the entry's expiry is reset for a
  positive ttl, and the store removes the entry for one that is not positive. A release
  or a renew with any other owner does not match: it returns false and changes nothing.
\<close>

theorem empty_owner_lock:
  assumes "acquire_lock self fp [] r = Inr (True, r')"
  shows "live r' (lock_key fp) =
           Some \<lparr>ent_value = [], ent_expires_at = Some (clock r + lock_ttl self * 1000)\<rparr>
       \<and> get_lock_owner self fp r' = Inr (None, r')
       \<and> release_lock self fp [] r' = Inr (True, r'\<lparr>db := (db r')(lock_key fp := None)\<rparr>)
       \<and> (- max_seconds \<le> ttl \<and> ttl \<le> max_seconds \<and> ttl * 1000 \<le> LLONG_MAX - clock r' \<longrightarrow>
            extend_lock self fp [] ttl r' =
              Inr (True,
                   if ttl \<le> 0 then r'\<lparr>db := (db r')(lock_key fp := None)\<rparr>
                   else r'\<lparr>db := (db r')(lock_key fp \<mapsto>
                          \<lparr>ent_value = [], ent_expires_at = Some (clock r' + ttl * 1000)\<rparr>)\<rparr>))
       \<and> (uid \<noteq> [] \<longrightarrow> release_lock self fp uid r' = Inr (False, r')
                       \<and> extend_lock self fp uid ttl r' = Inr (False, r'))"
proof -
  from acquire_returns [OF assms]
  have re: "reachable r" and lo: "0 < lock_ttl self" and hi: "lock_ttl self \<le> max_seconds"
    and fit: "clock r + lock_ttl self * 1000 \<le> LLONG_MAX"
    by simp_all
  from assms re lo hi fit
  have r': "r' = r\<lparr>db := (db r)(lock_key fp \<mapsto>
              \<lparr>ent_value = [], ent_expires_at = Some (clock r + lock_ttl self * 1000)\<rparr>)\<rparr>"
    by (auto simp: acquire_lock_eq split: if_splits)
  from r' lo
  have lv: "live r' (lock_key fp) =
      Some \<lparr>ent_value = [], ent_expires_at = Some (clock r + lock_ttl self * 1000)\<rparr>"
    by (simp add: live_fresh)
  have re': "reachable r'" using re r' by simp
  from lv re' show ?thesis
    by (auto simp: get_lock_owner_eq release_lock_eq extend_lock_eq cmd_get_def)
qed

theorem empty_owner_lock_witness:
  "acquire_lock FileLockManager_init ''doc/1.md'' [] no_locks = Inr (True, held_by_empty)
   \<and> live held_by_empty (lock_key ''doc/1.md'') = Some \<lparr>ent_value = [], ent_expires_at = Some 60000\<rparr>
   \<and> get_lock_owner FileLockManager_init ''doc/1.md'' held_by_empty = Inr (None, held_by_empty)
   \<and> release_lock FileLockManager_init ''doc/1.md'' [] held_by_empty = Inr (True, no_locks)
   \<and> - max_seconds \<le> 90 \<and> 90 \<le> max_seconds \<and> 90 * 1000 \<le> LLONG_MAX - clock held_by_empty
   \<and> extend_lock FileLockManager_init ''doc/1.md'' [] 90 held_by_empty
       = Inr (True, \<lparr>reachable = True, clock = 0,
           db = [''file_lock:doc/1.md'' \<mapsto> \<lparr>ent_value = [], ent_expires_at = Some 90000\<rparr>]\<rparr>)
   \<and> - max_seconds \<le> 0 \<and> 0 \<le> max_seconds \<and> 0 * 1000 \<le> LLONG_MAX - clock held_by_empty
   \<and> extend_lock FileLockManager_init ''doc/1.md'' [] 0 held_by_empty = Inr (True, no_locks)
   \<and> ''B'' \<noteq> []
   \<and> release_lock FileLockManager_init ''doc/1.md'' ''B'' held_by_empty = Inr (False, held_by_empty)
   \<and> extend_lock FileLockManager_init ''doc/1.md'' ''B'' 90 held_by_empty = Inr (False, held_by_empty)"
proof -
  have h: "acquire_lock FileLockManager_init ''doc/1.md'' [] no_locks = Inr (True, held_by_empty)"
    by (simp add: acquire_lock_def redis_set_def cmd_set_nx_ex_def eval_defs)
  have rng: "- max_seconds \<le> 90 \<and> 90 \<le> max_seconds \<and> 90 * 1000 \<le> LLONG_MAX - clock held_by_empty"
    by (simp add: eval_defs)
  have rng0: "- max_seconds \<le> 0 \<and> 0 \<le> max_seconds \<and> 0 * 1000 \<le> LLONG_MAX - clock held_by_empty"
    by (simp add: eval_defs)
  from empty_owner_lock [OF h, of 90 "''B''"] empty_owner_lock [OF h, of 0 "''B''"] h rng rng0
  show ?thesis by (simp add: FileLockManager_init_def lock_key_def)
qed

text \<open>
  C10. The key of a resource is \<open>file_lock:\<close> followed by the resource_id, and distinct
  resources have distinct keys. A call of acquire, release or renew that returns leaves
  every key but its own resource's as it was, entry and liveness, and get_owner leaves
  the whole store as it was; so a call on \<open>fp\<close> leaves the entry of any other resource
  \<open>fp'\<close> unchanged. (A call that raises returns no store: nothing was written.)
\<close>

theorem other_keys_untouched:
  "lock_key fp = ''file_lock:'' @ fp
 \<and> (fp' \<noteq> fp \<longrightarrow> lock_key fp' \<noteq> lock_key fp)
 \<and> (k \<noteq> lock_key fp \<longrightarrow>
      (acquire_lock self fp uid r = Inr (b, r') \<longrightarrow> db r' k = db r k \<and> live r' k = live r k)
    \<and> (release_lock self fp uid r = Inr (b, r') \<longrightarrow> db r' k = db r k \<and> live r' k = live r k)
    \<and> (extend_lock self fp uid ttl r = Inr (b, r') \<longrightarrow> db r' k = db r k \<and> live r' k = live r k))
 \<and> (get_lock_owner self fp r = Inr (w, r') \<longrightarrow> r' = r)"
proof -
  have key: "lock_key fp = ''file_lock:'' @ fp" by (simp add: lock_key_def)
  have inj: "fp' \<noteq> fp \<longrightarrow> lock_key fp' \<noteq> lock_key fp" by (simp add: lock_key_inject)
  have acq: "acquire_lock self fp uid r = Inr (b, r') \<longrightarrow> db r' k = db r k \<and> live r' k = live r k"
    if "k \<noteq> lock_key fp"
    using acquire_frame [OF _ that] live_cong_entry by blast
  have rel: "release_lock self fp uid r = Inr (b, r') \<longrightarrow> db r' k = db r k \<and> live r' k = live r k"
    if "k \<noteq> lock_key fp"
    using release_frame [OF _ that] live_cong_entry by blast
  have ext: "extend_lock self fp uid ttl r = Inr (b, r') \<longrightarrow> db r' k = db r k \<and> live r' k = live r k"
    if "k \<noteq> lock_key fp"
    using extend_frame [OF _ that] live_cong_entry by blast
  have get: "get_lock_owner self fp r = Inr (w, r') \<longrightarrow> r' = r"
    using get_owner_returns by blast
  from key inj acq rel ext get show ?thesis by blast
qed

theorem other_keys_untouched_witness:
  "''doc/1.md'' \<noteq> ''doc/2.md''
 \<and> lock_key ''doc/1.md'' \<noteq> lock_key ''doc/2.md''
 \<and> acquire_lock FileLockManager_init ''doc/2.md'' ''B'' held_by_A
     = Inr (True, \<lparr>reachable = True, clock = 5000,
         db = [''file_lock:doc/1.md'' \<mapsto> \<lparr>ent_value = ''A'', ent_expires_at = Some 65000\<rparr>,
               ''file_lock:doc/2.md'' \<mapsto> \<lparr>ent_value = ''B'', ent_expires_at = Some 65000\<rparr>]\<rparr>)
 \<and> db \<lparr>reachable = True, clock = 5000,
         db = [''file_lock:doc/1.md'' \<mapsto> \<lparr>ent_value = ''A'', ent_expires_at = Some 65000\<rparr>,
               ''file_lock:doc/2.md'' \<mapsto> \<lparr>ent_value = ''B'', ent_expires_at = Some 65000\<rparr>]\<rparr>
      (lock_key ''doc/1.md'') = db held_by_A (lock_key ''doc/1.md'')
 \<and> release_lock FileLockManager_init ''doc/1.md'' ''A'' held_by_A = Inr (True, released)
 \<and> db released (lock_key ''doc/2.md'') = db held_by_A (lock_key ''doc/2.md'')
 \<and> extend_lock FileLockManager_init ''doc/1.md'' ''A'' 300 held_by_A
     = Inr (True, \<lparr>reachable = True, clock = 5000,
         db = [''file_lock:doc/1.md'' \<mapsto> \<lparr>ent_value = ''A'', ent_expires_at = Some 305000\<rparr>]\<rparr>)
 \<and> live \<lparr>reachable = True, clock = 5000,
         db = [''file_lock:doc/1.md'' \<mapsto> \<lparr>ent_value = ''A'', ent_expires_at = Some 305000\<rparr>]\<rparr>
      (lock_key ''doc/2.md'') = live held_by_A (lock_key ''doc/2.md'')
 \<and> get_lock_owner FileLockManager_init ''doc/2.md'' held_by_A = Inr (None, held_by_A)"
proof -
  let ?two = "\<lparr>reachable = True, clock = 5000,
         db = [''file_lock:doc/1.md'' \<mapsto> \<lparr>ent_value = ''A'', ent_expires_at = Some 65000\<rparr>,
               ''file_lock:doc/2.md'' \<mapsto> \<lparr>ent_value = ''B'', ent_expires_at = Some 65000\<rparr>]\<rparr>"
  let ?long = "\<lparr>reachable = True, clock = 5000,
         db = [''file_lock:doc/1.md'' \<mapsto> \<lparr>ent_value = ''A'', ent_expires_at = Some 305000\<rparr>]\<rparr>"
  have d: "''doc/1.md'' \<noteq> ''doc/2.md''" by simp
  have d': "''doc/2.md'' \<noteq> ''doc/1.md''" by simp
  have a: "acquire_lock FileLockManager_init ''doc/2.md'' ''B'' held_by_A = Inr (True, ?two)"
    by (simp add: acquire_lock_def redis_set_def cmd_set_nx_ex_def eval_defs)
  have rl: "release_lock FileLockManager_init ''doc/1.md'' ''A'' held_by_A = Inr (True, released)"
    by (simp add: release_lock_def redis_eval_def release_script_def cmd_del_def eval_defs)
  have ex: "extend_lock FileLockManager_init ''doc/1.md'' ''A'' 300 held_by_A = Inr (True, ?long)"
    by (simp add: extend_lock_def redis_eval_def extend_script_def cmd_expire_def eval_defs)
  have g: "get_lock_owner FileLockManager_init ''doc/2.md'' held_by_A = Inr (None, held_by_A)"
    by (simp add: get_lock_owner_def redis_get_def eval_defs)
  note t1 = other_keys_untouched [of "''doc/2.md''" "''doc/1.md''" "lock_key ''doc/1.md''"
      FileLockManager_init "''B''" held_by_A True ?two]
  note t2 = other_keys_untouched [of "''doc/1.md''" "''doc/2.md''" "lock_key ''doc/2.md''"
      FileLockManager_init "''A''" held_by_A True released]
  note t3 = other_keys_untouched [of "''doc/1.md''" "''doc/2.md''" "lock_key ''doc/2.md''"
      FileLockManager_init "''A''" held_by_A True ?long 300]
  from t1 d have k1: "lock_key ''doc/1.md'' \<noteq> lock_key ''doc/2.md''" by blast
  from t2 d' have k2: "lock_key ''doc/2.md'' \<noteq> lock_key ''doc/1.md''" by blast
  from t1 k1 a have c1: "db ?two (lock_key ''doc/1.md'') = db held_by_A (lock_key ''doc/1.md'')"
    by blast
  from t2 k2 rl have c2: "db released (lock_key ''doc/2.md'') = db held_by_A (lock_key ''doc/2.md'')"
    by blast
  from t3 k2 ex have c3: "live ?long (lock_key ''doc/2.md'') = live held_by_A (lock_key ''doc/2.md'')"
    by blast
  from d k1 a rl ex g c1 c2 c3 show ?thesis by blast
qed

end
